theory Spec2Isabelle
  imports Main
begin

section \<open>Strings\<close>

text \<open>
  Python strings are modelled as HOL strings, one \<^typ>\<open>char\<close> per character, for the
  characters with code points below 256.  On these the character classes below are
  Python's \<^verbatim>\<open>str.isspace\<close> (which \<^verbatim>\<open>strip\<close>, \<^verbatim>\<open>split\<close> and the regular expression
  class \<^verbatim>\<open>\s\<close> use: the ASCII white space, the separators 28 to 31, the next-line
  character 133 and the no-break space 160), the class \<^verbatim>\<open>\d\<close> (the ten ASCII digits) and
  \<^verbatim>\<open>str.lower\<close> (the ASCII capitals and the accented capitals from 192 to 222 without
  the multiplication sign).  Characters beyond that range are outside the model.
\<close>

definition is_space :: "char \<Rightarrow> bool" where
  "is_space c =
     ((9 \<le> (of_char c :: nat) \<and> (of_char c :: nat) \<le> 13) \<or>
      (28 \<le> (of_char c :: nat) \<and> (of_char c :: nat) \<le> 32) \<or>
      (of_char c :: nat) = 133 \<or> (of_char c :: nat) = 160)"

definition is_digit :: "char \<Rightarrow> bool" where
  "is_digit c = (48 \<le> (of_char c :: nat) \<and> (of_char c :: nat) \<le> 57)"

definition upper_letters :: string where
  "upper_letters =
     ''ABCDEFGHIJKLMNOPQRSTUVWXYZ'' @
     [CHR 0xC0, CHR 0xC1, CHR 0xC2, CHR 0xC3, CHR 0xC4, CHR 0xC5, CHR 0xC6,
      CHR 0xC7, CHR 0xC8, CHR 0xC9, CHR 0xCA, CHR 0xCB, CHR 0xCC, CHR 0xCD,
      CHR 0xCE, CHR 0xCF, CHR 0xD0, CHR 0xD1, CHR 0xD2, CHR 0xD3, CHR 0xD4,
      CHR 0xD5, CHR 0xD6, CHR 0xD8, CHR 0xD9, CHR 0xDA, CHR 0xDB, CHR 0xDC,
      CHR 0xDD, CHR 0xDE]"

definition lower_letters :: string where
  "lower_letters =
     ''abcdefghijklmnopqrstuvwxyz'' @
     [CHR 0xE0, CHR 0xE1, CHR 0xE2, CHR 0xE3, CHR 0xE4, CHR 0xE5, CHR 0xE6,
      CHR 0xE7, CHR 0xE8, CHR 0xE9, CHR 0xEA, CHR 0xEB, CHR 0xEC, CHR 0xED,
      CHR 0xEE, CHR 0xEF, CHR 0xF0, CHR 0xF1, CHR 0xF2, CHR 0xF3, CHR 0xF4,
      CHR 0xF5, CHR 0xF6, CHR 0xF8, CHR 0xF9, CHR 0xFA, CHR 0xFB, CHR 0xFC,
      CHR 0xFD, CHR 0xFE]"

definition lower_char :: "char \<Rightarrow> char" where
  "lower_char c =
     (case map_of (zip upper_letters lower_letters) c of
        Some l \<Rightarrow> l
      | None \<Rightarrow> c)"

definition str_lower :: "string \<Rightarrow> string" where
  "str_lower s = map lower_char s"

text \<open>\<^verbatim>\<open>s.strip()\<close>: whitespace removed at both ends.\<close>

definition str_strip :: "string \<Rightarrow> string" where
  "str_strip s = rev (dropWhile is_space (rev (dropWhile is_space s)))"

text \<open>\<^verbatim>\<open>s.strip(',')\<close>: the given character removed at both ends.\<close>

definition strip_char :: "char \<Rightarrow> string \<Rightarrow> string" where
  "strip_char c s = rev (dropWhile (\<lambda>x. x = c) (rev (dropWhile (\<lambda>x. x = c) s)))"

text \<open>\<^verbatim>\<open>s.startswith(p)\<close>.\<close>

definition startswith :: "string \<Rightarrow> string \<Rightarrow> bool" where
  "startswith s p = (take (length p) s = p)"

text \<open>
  \<^verbatim>\<open>s.split(c)\<close> for a one-character separator: every occurrence of the separator
  ends a token, empty tokens are kept, and the result always has at least one token.
\<close>

fun str_split :: "char \<Rightarrow> string \<Rightarrow> string list" where
  "str_split c [] = [[]]"
| "str_split c (x # xs) =
     (if x = c then [] # str_split c xs
      else (case str_split c xs of
              [] \<Rightarrow> [[x]]
            | t # ts \<Rightarrow> (x # t) # ts))"

text \<open>\<^verbatim>\<open>c.join(parts)\<close> for a one-character separator.\<close>

fun str_join :: "char \<Rightarrow> string list \<Rightarrow> string" where
  "str_join c [] = []"
| "str_join c [p] = p"
| "str_join c (p # q # ps) = p @ c # str_join c (q # ps)"

text \<open>\<^verbatim>\<open>s.split()\<close> without argument: tokens are the maximal runs of non-whitespace.\<close>

fun split_ws_from :: "string \<Rightarrow> string \<Rightarrow> string list" where
  "split_ws_from cur [] = (if cur = [] then [] else [cur])"
| "split_ws_from cur (c # cs) =
     (if is_space c
      then (if cur = [] then split_ws_from [] cs else cur # split_ws_from [] cs)
      else split_ws_from (cur @ [c]) cs)"

definition split_ws :: "string \<Rightarrow> string list" where
  "split_ws s = split_ws_from [] s"

text \<open>\<^verbatim>\<open>s.split(' ', 1)\<close>: split at the first space only.\<close>

definition split_first_space :: "string \<Rightarrow> string list" where
  "split_first_space s =
     (case dropWhile (\<lambda>x. x \<noteq> CHR '' '') s of
        [] \<Rightarrow> [s]
      | _ # rest \<Rightarrow> [takeWhile (\<lambda>x. x \<noteq> CHR '' '') s, rest])"

text \<open>\<^verbatim>\<open>int(ds)\<close> on a string of decimal digits.\<close>

definition digit_val :: "char \<Rightarrow> nat" where
  "digit_val c = of_char c - 48"

definition int_of_digits :: "string \<Rightarrow> nat" where
  "int_of_digits ds = foldl (\<lambda>a c. 10 * a + digit_val c) 0 ds"


section \<open>Action codec (the decoding part of \<^verbatim>\<open>handle_callback_query\<close>)\<close>

text \<open>
  The handler decodes the button payload inline.  The decoded forms are: no payload at
  all, the language form, the priority form \<^verbatim>\<open>priority_value_taskid\<close>, the general form
  \<^verbatim>\<open>action_taskid\<close>, and a payload with too few tokens, which is logged and dropped.
\<close>

datatype callback =
    NoData
  | Lang string
  | PriorityForm string string
  | GeneralForm string string
  | Malformed

definition decode_callback :: "string \<Rightarrow> callback" where
  "decode_callback callback_data =
     (if callback_data = [] then NoData
      else if startswith callback_data ''lang_'' then
        (case str_split CHR ''_'' callback_data of
           _ # lang_code # _ \<Rightarrow> Lang lang_code
         | _ \<Rightarrow> Malformed)
      else if startswith callback_data ''priority_'' then
        (let parts = str_split CHR ''_'' callback_data in
         if length parts \<ge> 3
         then PriorityForm (parts ! 1) (str_join CHR ''_'' (drop 2 parts))
         else Malformed)
      else
        (let parts = str_split CHR ''_'' callback_data in
         if length parts < 2 then Malformed
         else GeneralForm (parts ! 0) (str_join CHR ''_'' (drop 1 parts))))"


section \<open>Timestamps (Python's \<^verbatim>\<open>datetime\<close>)\<close>

text \<open>
  The standard library's naive \<^verbatim>\<open>datetime\<close>: a date of the proleptic Gregorian
  calendar between the years 1 and 9999 with a time of day.  Its constructor and
  \<^verbatim>\<open>replace\<close> raise \<^verbatim>\<open>ValueError\<close> on a field out of range, and adding a
  \<^verbatim>\<open>timedelta\<close> raises \<^verbatim>\<open>OverflowError\<close> when the delta or the resulting date is
  out of range.
\<close>

datatype error = ValueError | OverflowError

record datetime =
  year :: nat
  month :: nat
  day :: nat
  hour :: nat
  minute :: nat
  second :: nat
  microsecond :: nat

definition is_leap :: "nat \<Rightarrow> bool" where
  "is_leap y = (y mod 4 = 0 \<and> (y mod 100 \<noteq> 0 \<or> y mod 400 = 0))"

definition days_in_month :: "nat \<Rightarrow> nat \<Rightarrow> nat" where
  "days_in_month y m =
     (if m = 2 then (if is_leap y then 29 else 28)
      else if m = 4 \<or> m = 6 \<or> m = 9 \<or> m = 11 then 30 else 31)"

definition valid_datetime :: "datetime \<Rightarrow> bool" where
  "valid_datetime d =
     (1 \<le> year d \<and> year d \<le> 9999 \<and> 1 \<le> month d \<and> month d \<le> 12 \<and>
      1 \<le> day d \<and> day d \<le> days_in_month (year d) (month d) \<and>
      hour d \<le> 23 \<and> minute d \<le> 59 \<and> second d \<le> 59 \<and> microsecond d \<le> 999999)"

text \<open>\<^verbatim>\<open>datetime(year, month, day, hour, minute)\<close>.\<close>

definition datetime_new :: "nat \<Rightarrow> nat \<Rightarrow> nat \<Rightarrow> nat \<Rightarrow> nat \<Rightarrow> error + datetime" where
  "datetime_new y m d h mi =
     (if 1 \<le> y \<and> y \<le> 9999 \<and> 1 \<le> m \<and> m \<le> 12 \<and> 1 \<le> d \<and> d \<le> days_in_month y m \<and>
         h \<le> 23 \<and> mi \<le> 59
      then Inr \<lparr>year = y, month = m, day = d, hour = h, minute = mi, second = 0, microsecond = 0\<rparr>
      else Inl ValueError)"

text \<open>\<^verbatim>\<open>dt.replace(hour=h, minute=mi, second=0, microsecond=0)\<close>.\<close>

definition replace_time :: "datetime \<Rightarrow> nat \<Rightarrow> nat \<Rightarrow> error + datetime" where
  "replace_time dt h mi =
     (if h \<le> 23 \<and> mi \<le> 59
      then Inr (dt\<lparr>hour := h, minute := mi, second := 0, microsecond := 0\<rparr>)
      else Inl ValueError)"

text \<open>The day after a date; there is none after 31 December 9999.\<close>

definition next_day :: "datetime \<Rightarrow> error + datetime" where
  "next_day dt =
     (if day dt < days_in_month (year dt) (month dt) then Inr (dt\<lparr>day := day dt + 1\<rparr>)
      else if month dt < 12 then Inr (dt\<lparr>month := month dt + 1, day := 1\<rparr>)
      else if year dt < 9999 then Inr (dt\<lparr>year := year dt + 1, month := 1, day := 1\<rparr>)
      else Inl OverflowError)"

fun add_days :: "nat \<Rightarrow> datetime \<Rightarrow> error + datetime" where
  "add_days 0 dt = Inr dt"
| "add_days (Suc n) dt = (case next_day dt of Inl e \<Rightarrow> Inl e | Inr dt' \<Rightarrow> add_days n dt')"

text \<open>
  \<^verbatim>\<open>dt + timedelta(days=n)\<close> for a non-negative \<^verbatim>\<open>n\<close>: the delta itself must not
  exceed 999999999 days, the date moves \<^verbatim>\<open>n\<close> days on, the time of day stays.
\<close>

definition plus_days :: "datetime \<Rightarrow> nat \<Rightarrow> error + datetime" where
  "plus_days dt n = (if n > 999999999 then Inl OverflowError else add_days n dt)"

text \<open>The order of timestamps, as \<^verbatim>\<open>a <= b\<close> compares them.\<close>

definition dt_key :: "datetime \<Rightarrow> nat list" where
  "dt_key d = [year d, month d, day d, hour d, minute d, second d, microsecond d]"

fun lex_le :: "nat list \<Rightarrow> nat list \<Rightarrow> bool" where
  "lex_le [] ys = True"
| "lex_le (x # xs) [] = False"
| "lex_le (x # xs) (y # ys) = (x < y \<or> (x = y \<and> lex_le xs ys))"

definition dt_le :: "datetime \<Rightarrow> datetime \<Rightarrow> bool" where
  "dt_le a b = lex_le (dt_key a) (dt_key b)"


section \<open>Deadline expression parser (\<^verbatim>\<open>_parse_deadline\<close>)\<close>

text \<open>
  The five regular expressions are matched with \<^verbatim>\<open>re.match\<close>, that is at the start of
  the text and with anything allowed after the match.  Each has a single way to match:
  a run of digits or of whitespace is always followed by a character outside that class,
  so the greedy match is the only one.  The matchers return the captured groups.
\<close>

text \<open>A literal at the start of the text; the rest is returned.\<close>

definition lit :: "string \<Rightarrow> string \<Rightarrow> string option" where
  "lit p s = (if startswith s p then Some (drop (length p) s) else None)"

text \<open>\<^verbatim>\<open>(\d{n})\<close>: exactly \<open>n\<close> digits; the group as a number, and the rest.\<close>

definition digits_n :: "nat \<Rightarrow> string \<Rightarrow> (nat \<times> string) option" where
  "digits_n n s =
     (if n \<le> length s \<and> list_all is_digit (take n s)
      then Some (int_of_digits (take n s), drop n s) else None)"

text \<open>\<^verbatim>\<open>(\d+)\<close>: the longest non-empty run of digits.\<close>

definition digits_many :: "string \<Rightarrow> (nat \<times> string) option" where
  "digits_many s =
     (if takeWhile is_digit s = [] then None
      else Some (int_of_digits (takeWhile is_digit s), dropWhile is_digit s))"

text \<open>\<^verbatim>\<open>\s+\<close> and \<^verbatim>\<open>\s*\<close>.\<close>

definition spaces1 :: "string \<Rightarrow> string option" where
  "spaces1 s = (if takeWhile is_space s = [] then None else Some (dropWhile is_space s))"

definition spaces0 :: "string \<Rightarrow> string" where
  "spaces0 s = dropWhile is_space s"

text \<open>\<^verbatim>\<open>(\d{2}):(\d{2})\<close>, the clock part shared by three of the grammars.\<close>

definition match_clock :: "string \<Rightarrow> (nat \<times> nat) option" where
  "match_clock s =
     (case digits_n 2 s of None \<Rightarrow> None
      | Some (h, s1) \<Rightarrow>
     (case lit '':'' s1 of None \<Rightarrow> None
      | Some s2 \<Rightarrow>
     (case digits_n 2 s2 of None \<Rightarrow> None
      | Some (mi, _) \<Rightarrow> Some (h, mi))))"

text \<open>\<^verbatim>\<open>(\d{2})\.(\d{2})\.(\d{4})\s+(\d{2}):(\d{2})\<close>: day, month, year, hour, minute.\<close>

definition match_absolute :: "string \<Rightarrow> (nat \<times> nat \<times> nat \<times> nat \<times> nat) option" where
  "match_absolute s =
     (case digits_n 2 s of None \<Rightarrow> None
      | Some (d, s1) \<Rightarrow>
     (case lit ''.'' s1 of None \<Rightarrow> None
      | Some s2 \<Rightarrow>
     (case digits_n 2 s2 of None \<Rightarrow> None
      | Some (m, s3) \<Rightarrow>
     (case lit ''.'' s3 of None \<Rightarrow> None
      | Some s4 \<Rightarrow>
     (case digits_n 4 s4 of None \<Rightarrow> None
      | Some (y, s5) \<Rightarrow>
     (case spaces1 s5 of None \<Rightarrow> None
      | Some s6 \<Rightarrow>
     (case match_clock s6 of None \<Rightarrow> None
      | Some (h, mi) \<Rightarrow> Some (d, m, y, h, mi))))))))"

text \<open>\<^verbatim>\<open>today\s+(\d{2}):(\d{2})\<close> and \<^verbatim>\<open>tomorrow\s+(\d{2}):(\d{2})\<close>.\<close>

definition match_word_clock :: "string \<Rightarrow> string \<Rightarrow> (nat \<times> nat) option" where
  "match_word_clock w s =
     (case lit w s of None \<Rightarrow> None
      | Some s1 \<Rightarrow>
     (case spaces1 s1 of None \<Rightarrow> None
      | Some s2 \<Rightarrow> match_clock s2))"

text \<open>
  \<^verbatim>\<open>(\d+)\s*days?\<close> and \<^verbatim>\<open>(\d+)\s*weeks?\<close>: the optional final \<^verbatim>\<open>s\<close> never
  decides the match, so the unit is given without it.
\<close>

definition match_count :: "string \<Rightarrow> string \<Rightarrow> nat option" where
  "match_count unit s =
     (case digits_many s of None \<Rightarrow> None
      | Some (n, s1) \<Rightarrow>
     (case lit unit (spaces0 s1) of None \<Rightarrow> None
      | Some _ \<Rightarrow> Some n))"

text \<open>
  The grammars after the absolute one.  The reference time \<open>now\<close> is what
  \<^verbatim>\<open>datetime.utcnow()\<close> returned.  A result \<open>Inl e\<close> is the exception \<open>e\<close> leaving
  \<^verbatim>\<open>_parse_deadline\<close>; \<open>Inr None\<close> is the return value \<^verbatim>\<open>None\<close>.
\<close>

definition parse_relative :: "string \<Rightarrow> datetime \<Rightarrow> error + datetime option" where
  "parse_relative text now =
     (case match_word_clock ''today'' text of
        Some (h, mi) \<Rightarrow>
          (case replace_time now h mi of Inl e \<Rightarrow> Inl e | Inr dt \<Rightarrow> Inr (Some dt))
      | None \<Rightarrow>
     (case match_word_clock ''tomorrow'' text of
        Some (h, mi) \<Rightarrow>
          (case plus_days now 1 of Inl e \<Rightarrow> Inl e
           | Inr tomorrow \<Rightarrow>
          (case replace_time tomorrow h mi of Inl e \<Rightarrow> Inl e | Inr dt \<Rightarrow> Inr (Some dt)))
      | None \<Rightarrow>
     (case match_count ''day'' text of
        Some days \<Rightarrow>
          (case plus_days now days of Inl e \<Rightarrow> Inl e | Inr dt \<Rightarrow> Inr (Some dt))
      | None \<Rightarrow>
     (case match_count ''week'' text of
        Some weeks \<Rightarrow>
          (case plus_days now (7 * weeks) of Inl e \<Rightarrow> Inl e | Inr dt \<Rightarrow> Inr (Some dt))
      | None \<Rightarrow> Inr None))))"

definition parse_deadline :: "string \<Rightarrow> datetime \<Rightarrow> error + datetime option" where
  "parse_deadline text0 now =
     (let text = str_strip (str_lower text0) in
      case match_absolute text of
        Some (d, m, y, h, mi) \<Rightarrow>
          (case datetime_new y m d h mi of
             Inr dt \<Rightarrow> Inr (Some dt)
           | Inl _ \<Rightarrow> parse_relative text now)
      | None \<Rightarrow> parse_relative text now)"


section \<open>Tasks, users and the stores\<close>

datatype TaskStatus = TODO | IN_PROGRESS | COMPLETED | CANCELLED

datatype TaskPriority = LOW | MEDIUM | HIGH | URGENT

datatype TaskType = ASSIGNMENT | MEETING | REMINDER | PROJECT

text \<open>
  The fields of \<^verbatim>\<open>Task\<close> that the handler and the use cases read or write.  The
  bookkeeping fields (metadata, dependencies, subtasks, calendar event and the three
  timestamps the entity and the store stamp by themselves) are left out.
\<close>

record Task =
  id_t :: "string option"
  user_id :: "string option"
  title :: string
  description :: string
  type_t :: TaskType
  status :: TaskStatus
  priority :: TaskPriority
  deadline :: "datetime option"
  tags :: "string list"

text \<open>The dataclass constructor with its \<^verbatim>\<open>__post_init__\<close> check.\<close>

definition Task_new ::
  "string option \<Rightarrow> string \<Rightarrow> string \<Rightarrow> TaskType \<Rightarrow> TaskPriority \<Rightarrow> datetime option \<Rightarrow> string list
   \<Rightarrow> error + Task" where
  "Task_new uid ttl descr ty prio dl tgs =
     (if ttl = [] then Inl ValueError
      else Inr \<lparr>id_t = None, user_id = uid, title = ttl, description = descr, type_t = ty,
                status = TODO, priority = prio, deadline = dl, tags = tgs\<rparr>)"

datatype NotificationPreference = ENABLED | DISABLED

record User =
  id_u :: "string option"
  telegram_id :: int
  notifications :: NotificationPreference

definition notifications_enabled :: "User \<Rightarrow> bool" where
  "notifications_enabled u = (notifications u = ENABLED)"

text \<open>Identifiers issued by the store: the \<open>n\<close>-th one is \<^verbatim>\<open>oid\<close> followed by \<open>n\<close> in decimal.\<close>

fun str_of_nat :: "nat \<Rightarrow> string" where
  "str_of_nat n =
     (if n < 10 then [''0123456789'' ! n]
      else str_of_nat (n div 10) @ [''0123456789'' ! (n mod 10)])"

declare str_of_nat.simps [simp del]

definition new_oid :: "nat \<Rightarrow> string" where
  "new_oid n = ''oid'' @ str_of_nat n"

text \<open>
  The task store behind \<^verbatim>\<open>ITaskRepository\<close>: documents by identifier.  A task read
  from it carries the identifier it was found under; \<^verbatim>\<open>update\<close> and \<^verbatim>\<open>delete\<close>
  report whether a document was there.  Faults of the store itself are not modelled.
\<close>

type_synonym task_store = "string \<rightharpoonup> Task"

definition get_by_id :: "string \<Rightarrow> task_store \<Rightarrow> Task option" where
  "get_by_id tid store = map_option (\<lambda>t. t\<lparr>id_t := Some tid\<rparr>) (store tid)"

definition update :: "Task \<Rightarrow> task_store \<Rightarrow> bool \<times> task_store" where
  "update task store =
     (case id_t task of
        None \<Rightarrow> (False, store)
      | Some tid \<Rightarrow>
          if tid = [] then (False, store)
          else if store tid = None then (False, store)
          else (True, store(tid \<mapsto> task)))"

definition delete :: "string \<Rightarrow> task_store \<Rightarrow> bool \<times> task_store" where
  "delete tid store =
     (if store tid = None then (False, store) else (True, store(tid := None)))"


section \<open>The handler's world\<close>

text \<open>The follow-up kinds stored under \<^verbatim>\<open>user_data['pending_action']\<close>.\<close>

datatype pending =
    new_task_title | search_keyword
  | set_deadline | add_tags | add_description
  | edit_title | edit_deadline | edit_tags | edit_description

record UserData =
  pending_action :: "pending option"
  task_id :: "string option"

text \<open>
  What the bot sends.  The texts are reduced to what they report; a keyboard is named by
  the task its buttons carry.
\<close>

datatype message =
    Welcome
  | ErrorOccurred
  | RegisterFirst
  | TaskNotFound
  | UnknownAction
  | EditCancelled
  | PromptSetDeadline string
  | PromptAddTags string
  | PromptAddDescription string
  | ChoosePriority string "string option"
  | ConfirmDelete string "string option"
  | TaskDeleted string
  | CouldNotDelete
  | EditOptions string "string option"
  | PromptEditTitle string
  | PromptEditDeadline string
  | PromptEditTags string
  | PromptEditDescription string
  | PrioritySet string TaskPriority
  | InvalidDeadlineFormat
  | NoValidTags
  | DeadlineSet string datetime
  | TagsAdded string "string list"
  | DescriptionAdded string string
  | TitleUpdated string string
  | DeadlineUpdated string datetime
  | TagsUpdated string "string list" "string list"
  | DescriptionUpdated string string string
  | TaskAdded string "string option"
  | AskTaskName
  | AskKeyword
  | SearchOutcome string
  | TaskListing
  | DeadlineListing
  | HelpText

datatype outbound = Reply message | EditMessage message

text \<open>
  The state the handlers act on: the task store, the user directory (documents in
  insertion order), the number of identifiers issued so far, the per-user
  \<^verbatim>\<open>context.user_data\<close>, what was sent to the chat, and the notifications handed to the
  notification service.
\<close>

record bot =
  tasks :: task_store
  users :: "User list"
  issued :: nat
  user_data :: "int \<Rightarrow> UserData"
  sent :: "outbound list"
  notified :: "string list"

definition send :: "outbound \<Rightarrow> bot \<Rightarrow> bot" where
  "send m s = s\<lparr>sent := sent s @ [m]\<rparr>"

definition get_by_telegram_id :: "int \<Rightarrow> bot \<Rightarrow> User option" where
  "get_by_telegram_id tg s = find (\<lambda>u. telegram_id u = tg) (users s)"

text \<open>\<^verbatim>\<open>_get_user_from_update\<close>: the sender's profile, or a hint to register.\<close>

definition get_user_from_update :: "int \<Rightarrow> bot \<Rightarrow> User option \<times> bot" where
  "get_user_from_update sender s =
     (case get_by_telegram_id sender s of
        None \<Rightarrow> (None, send (Reply RegisterFirst) s)
      | Some u \<Rightarrow> (Some u, s))"

definition set_pending :: "int \<Rightarrow> pending \<Rightarrow> string option \<Rightarrow> bot \<Rightarrow> bot" where
  "set_pending sender kind tid s =
     s\<lparr>user_data := (user_data s)(sender := \<lparr>pending_action = Some kind, task_id = tid\<rparr>)\<rparr>"

definition set_pending_action :: "int \<Rightarrow> pending \<Rightarrow> bot \<Rightarrow> bot" where
  "set_pending_action sender kind s =
     s\<lparr>user_data := (user_data s)(sender := (user_data s sender)\<lparr>pending_action := Some kind\<rparr>)\<rparr>"

definition pop_pending_action :: "int \<Rightarrow> bot \<Rightarrow> bot" where
  "pop_pending_action sender s =
     s\<lparr>user_data := (user_data s)(sender := (user_data s sender)\<lparr>pending_action := None\<rparr>)\<rparr>"

definition clear_pending :: "int \<Rightarrow> bot \<Rightarrow> bot" where
  "clear_pending sender s =
     s\<lparr>user_data := (user_data s)(sender := \<lparr>pending_action = None, task_id = None\<rparr>)\<rparr>"

definition store_update :: "Task \<Rightarrow> bot \<Rightarrow> bot" where
  "store_update task s = s\<lparr>tasks := snd (update task (tasks s))\<rparr>"


section \<open>Creating a task (\<^verbatim>\<open>CreateTaskUseCase\<close>)\<close>

text \<open>\<^verbatim>\<open>_validate_task\<close>; \<open>now\<close> is what \<^verbatim>\<open>datetime.utcnow()\<close> returns.\<close>

definition validate_task :: "datetime \<Rightarrow> Task \<Rightarrow> error + unit" where
  "validate_task now task =
     (if str_strip (title task) = [] then Inl ValueError
      else if (case deadline task of None \<Rightarrow> False | Some d \<Rightarrow> dt_le d now) then Inl ValueError
      else if length (title task) > 200 then Inl ValueError
      else Inr ())"

text \<open>
  \<^verbatim>\<open>CreateTaskUseCase.execute\<close>: build the entity, validate it, store it under a new
  identifier, notify.  An exception leaves the state as it was.
\<close>

definition execute ::
  "datetime \<Rightarrow> User \<Rightarrow> string \<Rightarrow> string \<Rightarrow> TaskType \<Rightarrow> TaskPriority \<Rightarrow> datetime option \<Rightarrow>
   string list \<Rightarrow> bot \<Rightarrow> error + (Task \<times> bot)" where
  "execute now user ttl descr ty prio dl tgs s =
     (case Task_new (id_u user) ttl descr ty prio dl tgs of
        Inl e \<Rightarrow> Inl e
      | Inr task \<Rightarrow>
     (case validate_task now task of
        Inl e \<Rightarrow> Inl e
      | Inr _ \<Rightarrow>
          (let new_id = new_oid (issued s);
               s1 = s\<lparr>tasks := (tasks s)(new_id \<mapsto> task), issued := issued s + 1\<rparr>;
               task1 = task\<lparr>id_t := Some new_id\<rparr>;
               s2 = (if notifications_enabled user then s1\<lparr>notified := notified s1 @ [ttl]\<rparr>
                     else s1)
           in Inr (task1, s2))))"

text \<open>\<^verbatim>\<open>_create_and_confirm_task\<close>: it has no handler of its own for exceptions.\<close>

definition create_and_confirm_task :: "datetime \<Rightarrow> User \<Rightarrow> string \<Rightarrow> bot \<Rightarrow> error + bot" where
  "create_and_confirm_task now user task_title s =
     (case execute now user task_title [] ASSIGNMENT MEDIUM None [] s of
        Inl e \<Rightarrow> Inl e
      | Inr (task, s1) \<Rightarrow> Inr (send (Reply (TaskAdded (title task) (id_t task))) s1))"


section \<open>Commands\<close>

text \<open>
  \<^verbatim>\<open>handle_add_task_command\<close>: with a title after \<^verbatim>\<open>/add_task\<close> the task is created
  at once; otherwise the title is asked for.  Its \<^verbatim>\<open>except\<close> clause answers every
  exception with an error reply.
\<close>

definition handle_add_task_command :: "datetime \<Rightarrow> int \<Rightarrow> string \<Rightarrow> bot \<Rightarrow> bot" where
  "handle_add_task_command now sender text s =
     (case get_user_from_update sender s of
        (None, s1) \<Rightarrow> s1
      | (Some user, s1) \<Rightarrow>
          (let command_text = str_strip text;
               parts = split_first_space command_text;
               task_title = (if startswith command_text ''/add_task'' \<and> length parts \<ge> 2
                             then str_strip (parts ! 1) else [])
           in if task_title \<noteq> []
              then (case create_and_confirm_task now user task_title s1 of
                      Inl e \<Rightarrow> send (Reply ErrorOccurred) s1
                    | Inr s2 \<Rightarrow> s2)
              else send (Reply AskTaskName) (set_pending_action sender new_task_title s1)))"

text \<open>
  \<^verbatim>\<open>_execute_search\<close> and \<^verbatim>\<open>handle_search_command\<close>.  Searching reads the store
  only; its answer is reduced to the term searched for.
\<close>

definition execute_search :: "string \<Rightarrow> bot \<Rightarrow> bot" where
  "execute_search search_term s = send (Reply (SearchOutcome search_term)) s"

definition handle_search_command :: "int \<Rightarrow> string \<Rightarrow> bot \<Rightarrow> bot" where
  "handle_search_command sender text s =
     (case get_user_from_update sender s of
        (None, s1) \<Rightarrow> s1
      | (Some user, s1) \<Rightarrow>
          (let command_text = str_strip text;
               parts = split_first_space command_text;
               search_term = (if startswith command_text ''/search'' \<and> length parts \<ge> 2
                              then str_strip (parts ! 1) else [])
           in if search_term \<noteq> []
              then execute_search search_term s1
              else send (Reply AskKeyword) (set_pending_action sender search_keyword s1)))"

text \<open>
  The commands that only read: the task list, the deadline list and the help text.
  Their answers are reduced to one marker each.
\<close>

definition handle_tasks_command :: "int \<Rightarrow> bot \<Rightarrow> bot" where
  "handle_tasks_command sender s =
     (case get_user_from_update sender s of
        (None, s1) \<Rightarrow> s1
      | (Some user, s1) \<Rightarrow> send (Reply TaskListing) s1)"

definition handle_deadline_command :: "int \<Rightarrow> bot \<Rightarrow> bot" where
  "handle_deadline_command sender s =
     (case get_user_from_update sender s of
        (None, s1) \<Rightarrow> s1
      | (Some user, s1) \<Rightarrow> send (Reply DeadlineListing) s1)"

definition handle_help_command :: "bot \<Rightarrow> bot" where
  "handle_help_command s = send (Reply HelpText) s"


section \<open>Button presses (\<^verbatim>\<open>handle_callback_query\<close>)\<close>

text \<open>
  \<^verbatim>\<open>_handle_language_selection\<close>: a profile is created for the sender whatever the
  language code says; the \<^verbatim>\<open>User\<close> constructor rejects a non-positive Telegram id.
\<close>

definition handle_language_selection :: "int \<Rightarrow> bot \<Rightarrow> bot" where
  "handle_language_selection sender s =
     (if sender \<le> 0 then send (EditMessage ErrorOccurred) s
      else
        (let new_user = \<lparr>id_u = Some (new_oid (issued s)), telegram_id = sender,
                         notifications = ENABLED\<rparr>
         in send (EditMessage Welcome) (s\<lparr>users := users s @ [new_user], issued := issued s + 1\<rparr>)))"

definition priority_map :: "string \<Rightarrow> TaskPriority option" where
  "priority_map =
     map_of [(''urgent'', URGENT), (''high'', HIGH), (''medium'', MEDIUM), (''low'', LOW)]"

text \<open>\<^verbatim>\<open>_process_set_priority\<close>; an unknown value falls back to medium.\<close>

definition process_set_priority :: "Task \<Rightarrow> string \<Rightarrow> bot \<Rightarrow> bot" where
  "process_set_priority task priority_value s =
     (let new_priority = (case priority_map priority_value of Some p \<Rightarrow> p | None \<Rightarrow> MEDIUM);
          task1 = task\<lparr>priority := new_priority\<rparr>
      in send (EditMessage (PrioritySet (title task1) new_priority)) (store_update task1 s))"

definition handle_set_deadline :: "Task \<Rightarrow> int \<Rightarrow> bot \<Rightarrow> bot" where
  "handle_set_deadline task sender s =
     send (EditMessage (PromptSetDeadline (title task))) (set_pending sender set_deadline (id_t task) s)"

definition handle_add_tags :: "Task \<Rightarrow> int \<Rightarrow> bot \<Rightarrow> bot" where
  "handle_add_tags task sender s =
     send (EditMessage (PromptAddTags (title task))) (set_pending sender add_tags (id_t task) s)"

definition handle_add_description :: "Task \<Rightarrow> int \<Rightarrow> bot \<Rightarrow> bot" where
  "handle_add_description task sender s =
     send (EditMessage (PromptAddDescription (title task)))
       (set_pending sender add_description (id_t task) s)"

definition handle_set_priority :: "Task \<Rightarrow> bot \<Rightarrow> bot" where
  "handle_set_priority task s = send (EditMessage (ChoosePriority (title task) (id_t task))) s"

definition handle_delete_task :: "Task \<Rightarrow> bot \<Rightarrow> bot" where
  "handle_delete_task task s = send (EditMessage (ConfirmDelete (title task) (id_t task))) s"

text \<open>
  \<^verbatim>\<open>_process_delete_task\<close>: the task is deleted from the store by its identifier.  The
  \<^verbatim>\<open>user\<close> argument is not looked at.  A task without identifier names no document,
  so nothing is deleted and the store reports that.
\<close>

definition process_delete_task :: "Task \<Rightarrow> User \<Rightarrow> bot \<Rightarrow> bot" where
  "process_delete_task task user s =
     (case id_t task of
        None \<Rightarrow> send (EditMessage CouldNotDelete) s
      | Some tid \<Rightarrow>
          (let (success, store) = delete tid (tasks s);
               s1 = s\<lparr>tasks := store\<rparr>
           in if success then send (EditMessage (TaskDeleted (title task))) s1
              else send (EditMessage CouldNotDelete) s1))"

definition handle_edit_selection :: "Task \<Rightarrow> bot \<Rightarrow> bot" where
  "handle_edit_selection task s = send (EditMessage (EditOptions (title task) (id_t task))) s"

definition handle_edit_title :: "Task \<Rightarrow> int \<Rightarrow> bot \<Rightarrow> bot" where
  "handle_edit_title task sender s =
     send (EditMessage (PromptEditTitle (title task))) (set_pending sender edit_title (id_t task) s)"

definition handle_edit_deadline :: "Task \<Rightarrow> int \<Rightarrow> bot \<Rightarrow> bot" where
  "handle_edit_deadline task sender s =
     send (EditMessage (PromptEditDeadline (title task)))
       (set_pending sender edit_deadline (id_t task) s)"

definition handle_edit_tags :: "Task \<Rightarrow> int \<Rightarrow> bot \<Rightarrow> bot" where
  "handle_edit_tags task sender s =
     send (EditMessage (PromptEditTags (title task))) (set_pending sender edit_tags (id_t task) s)"

definition handle_edit_description :: "Task \<Rightarrow> int \<Rightarrow> bot \<Rightarrow> bot" where
  "handle_edit_description task sender s =
     send (EditMessage (PromptEditDescription (title task)))
       (set_pending sender edit_description (id_t task) s)"

definition handle_edit_priority :: "Task \<Rightarrow> bot \<Rightarrow> bot" where
  "handle_edit_priority task s = send (EditMessage (ChoosePriority (title task) (id_t task))) s"

text \<open>The \<^verbatim>\<open>if\<close>/\<^verbatim>\<open>elif\<close> chain over the action of a general-form payload.\<close>

definition dispatch_action :: "string \<Rightarrow> Task \<Rightarrow> User \<Rightarrow> int \<Rightarrow> bot \<Rightarrow> bot" where
  "dispatch_action action task user sender s =
     (if action = ''setdeadline'' then handle_set_deadline task sender s
      else if action = ''addtags'' then handle_add_tags task sender s
      else if action = ''adddescription'' then handle_add_description task sender s
      else if action = ''setpriority'' then handle_set_priority task s
      else if action = ''delete'' then handle_delete_task task s
      else if action = ''confirmdelete'' then process_delete_task task user s
      else if action = ''editselect'' then handle_edit_selection task s
      else if action = ''edittitle'' then handle_edit_title task sender s
      else if action = ''editdeadline'' then handle_edit_deadline task sender s
      else if action = ''edittags'' then handle_edit_tags task sender s
      else if action = ''editdesc'' then handle_edit_description task sender s
      else if action = ''editpriority'' then handle_edit_priority task s
      else if action = ''editcancel'' then send (EditMessage EditCancelled) s
      else send (EditMessage UnknownAction) s)"

text \<open>
  \<^verbatim>\<open>handle_callback_query\<close> for the button press of \<open>sender\<close> with payload
  \<open>callback_data\<close>.  A payload with too few tokens is logged and dropped without an
  answer.  The acknowledgement \<^verbatim>\<open>query.answer()\<close> is not a chat message and is left out.
\<close>

definition handle_callback_query :: "int \<Rightarrow> string \<Rightarrow> bot \<Rightarrow> bot" where
  "handle_callback_query sender callback_data s =
     (case decode_callback callback_data of
        NoData \<Rightarrow> s
      | Lang lang_code \<Rightarrow> handle_language_selection sender s
      | PriorityForm priority_value actual_task_id \<Rightarrow>
          (case get_by_id actual_task_id (tasks s) of
             Some task \<Rightarrow> process_set_priority task priority_value s
           | None \<Rightarrow> send (EditMessage TaskNotFound) s)
      | Malformed \<Rightarrow> s
      | GeneralForm action tid \<Rightarrow>
          (case get_user_from_update sender s of
             (None, s1) \<Rightarrow> s1
           | (Some user, s1) \<Rightarrow>
               (case get_by_id tid (tasks s1) of
                  None \<Rightarrow> send (EditMessage TaskNotFound) s1
                | Some task \<Rightarrow> dispatch_action action task user sender s1)))"


section \<open>Text messages (\<^verbatim>\<open>handle_message\<close>)\<close>

text \<open>
  \<^verbatim>\<open>_process_set_deadline\<close> and \<^verbatim>\<open>_process_edit_deadline\<close>: an unparseable text is
  answered with the format hints; an exception of the parser is caught here and answered
  with an error reply.
\<close>

definition process_set_deadline :: "datetime \<Rightarrow> Task \<Rightarrow> string \<Rightarrow> bot \<Rightarrow> bot" where
  "process_set_deadline now task message_text s =
     (case parse_deadline message_text now of
        Inl e \<Rightarrow> send (Reply ErrorOccurred) s
      | Inr None \<Rightarrow> send (Reply InvalidDeadlineFormat) s
      | Inr (Some dl) \<Rightarrow>
          send (Reply (DeadlineSet (title task) dl)) (store_update (task\<lparr>deadline := Some dl\<rparr>) s))"

definition process_edit_deadline :: "datetime \<Rightarrow> Task \<Rightarrow> string \<Rightarrow> bot \<Rightarrow> bot" where
  "process_edit_deadline now task message_text s =
     (case parse_deadline message_text now of
        Inl e \<Rightarrow> send (Reply ErrorOccurred) s
      | Inr None \<Rightarrow> send (Reply InvalidDeadlineFormat) s
      | Inr (Some dl) \<Rightarrow>
          send (Reply (DeadlineUpdated (title task) dl))
            (store_update (task\<lparr>deadline := Some dl\<rparr>) s))"

text \<open>
  The tag list of a text:
  \<^verbatim>\<open>[tag.strip().strip(',') for tag in text.replace(',', ' ').split() if tag.strip()]\<close>.
\<close>

definition parse_tags :: "string \<Rightarrow> string list" where
  "parse_tags message_text =
     map (\<lambda>tag. strip_char CHR '','' (str_strip tag))
       (filter (\<lambda>tag. str_strip tag \<noteq> [])
          (split_ws (map (\<lambda>c. if c = CHR '','' then CHR '' '' else c) message_text)))"

definition process_add_tags :: "Task \<Rightarrow> string \<Rightarrow> bot \<Rightarrow> bot" where
  "process_add_tags task message_text s =
     (let tgs = parse_tags message_text
      in if tgs = [] then send (Reply NoValidTags) s
         else send (Reply (TagsAdded (title task) tgs))
                (store_update (task\<lparr>tags := tags task @ tgs\<rparr>) s))"

definition process_edit_tags :: "Task \<Rightarrow> string \<Rightarrow> bot \<Rightarrow> bot" where
  "process_edit_tags task message_text s =
     (let tgs = parse_tags message_text
      in if tgs = [] then send (Reply NoValidTags) s
         else send (Reply (TagsUpdated (title task) (tags task) tgs))
                (store_update (task\<lparr>tags := tgs\<rparr>) s))"

definition process_add_description :: "Task \<Rightarrow> string \<Rightarrow> bot \<Rightarrow> bot" where
  "process_add_description task message_text s =
     send (Reply (DescriptionAdded (title task) message_text))
       (store_update (task\<lparr>description := message_text\<rparr>) s)"

definition process_edit_title :: "Task \<Rightarrow> string \<Rightarrow> bot \<Rightarrow> bot" where
  "process_edit_title task message_text s =
     send (Reply (TitleUpdated (title task) message_text))
       (store_update (task\<lparr>title := message_text\<rparr>) s)"

definition process_edit_description :: "Task \<Rightarrow> string \<Rightarrow> bot \<Rightarrow> bot" where
  "process_edit_description task message_text s =
     send (Reply (DescriptionUpdated (title task) (description task) message_text))
       (store_update (task\<lparr>description := message_text\<rparr>) s)"

text \<open>The \<^verbatim>\<open>if\<close>/\<^verbatim>\<open>elif\<close> chain over the task-scoped follow-up kinds.\<close>

fun process_pending :: "pending \<Rightarrow> datetime \<Rightarrow> Task \<Rightarrow> string \<Rightarrow> bot \<Rightarrow> bot" where
  "process_pending set_deadline now task text s = process_set_deadline now task text s"
| "process_pending add_tags now task text s = process_add_tags task text s"
| "process_pending add_description now task text s = process_add_description task text s"
| "process_pending edit_title now task text s = process_edit_title task text s"
| "process_pending edit_deadline now task text s = process_edit_deadline now task text s"
| "process_pending edit_tags now task text s = process_edit_tags task text s"
| "process_pending edit_description now task text s = process_edit_description task text s"
| "process_pending new_task_title now task text s = s"
| "process_pending search_keyword now task text s = s"

text \<open>
  The labels of the persistent keyboard.  Each starts with a pictograph, which lies
  beyond the characters of the model and is written here as its UTF-8 bytes; a label is
  only ever compared with the whole message.
\<close>

datatype route = tasks_route | add_task_route | deadlines_route | search_route | help_route

definition tasks_label :: string where
  "tasks_label = [CHR 0xF0, CHR 0x9F, CHR 0x93, CHR 0x8B] @ '' Tasks''"

definition add_task_label :: string where
  "add_task_label = [CHR 0xE2, CHR 0x9E, CHR 0x95] @ '' Add Task''"

definition deadlines_label :: string where
  "deadlines_label = [CHR 0xF0, CHR 0x9F, CHR 0x93, CHR 0x85] @ '' Deadlines''"

definition search_label :: string where
  "search_label = [CHR 0xF0, CHR 0x9F, CHR 0x94, CHR 0x8D] @ '' Search''"

definition help_label :: string where
  "help_label = [CHR 0xE2, CHR 0x9D, CHR 0x93] @ '' Help''"

definition keyboard_routes :: "string \<Rightarrow> route option" where
  "keyboard_routes =
     map_of
       [(tasks_label, tasks_route),
        (add_task_label, add_task_route),
        (deadlines_label, deadlines_route),
        (search_label, search_route),
        (help_label, help_route)]"

fun run_route :: "route \<Rightarrow> datetime \<Rightarrow> int \<Rightarrow> string \<Rightarrow> bot \<Rightarrow> bot" where
  "run_route tasks_route now sender text s = handle_tasks_command sender s"
| "run_route add_task_route now sender text s = handle_add_task_command now sender text s"
| "run_route deadlines_route now sender text s = handle_deadline_command sender s"
| "run_route search_route now sender text s = handle_search_command sender text s"
| "run_route help_route now sender text s = handle_help_command s"

text \<open>
  \<^verbatim>\<open>handle_message\<close> for the text \<open>text\<close> sent by \<open>sender\<close> at time \<open>now\<close>.  Its own
  \<^verbatim>\<open>except\<close> clause logs an exception and sends nothing.
\<close>

definition handle_message :: "datetime \<Rightarrow> int \<Rightarrow> string \<Rightarrow> bot \<Rightarrow> bot" where
  "handle_message now sender text s =
     (let message_text = str_strip text in
      case keyboard_routes message_text of
        Some r \<Rightarrow> run_route r now sender text s
      | None \<Rightarrow>
     (case get_user_from_update sender s of
        (None, s1) \<Rightarrow> s1
      | (Some user, s1) \<Rightarrow>
     (case pending_action (user_data s1 sender) of
        None \<Rightarrow> s1
      | Some kind \<Rightarrow>
          if kind = new_task_title then
            (let s2 = pop_pending_action sender s1
             in case create_and_confirm_task now user message_text s2 of
                  Inl e \<Rightarrow> s2
                | Inr s3 \<Rightarrow> s3)
          else if kind = search_keyword then
            execute_search message_text (pop_pending_action sender s1)
          else
            (case task_id (user_data s1 sender) of
               None \<Rightarrow> s1
             | Some tid \<Rightarrow>
                 if tid = [] then s1
                 else
                   (case get_by_id tid (tasks s1) of
                      None \<Rightarrow> send (Reply TaskNotFound) s1
                    | Some task \<Rightarrow>
                        clear_pending sender (process_pending kind now task text s1))))))"


section \<open>A sample world\<close>

text \<open>
  Two registered users, one task of the first user, nobody in a flow; and a reference
  time.  The concrete runs below start from here.
\<close>

definition alice :: User where
  "alice = \<lparr>id_u = Some ''u1'', telegram_id = 1, notifications = ENABLED\<rparr>"

definition bob :: User where
  "bob = \<lparr>id_u = Some ''u2'', telegram_id = 2, notifications = ENABLED\<rparr>"

definition essay :: Task where
  "essay = \<lparr>id_t = None, user_id = Some ''u1'', title = ''Essay'', description = [],
             type_t = ASSIGNMENT, status = TODO, priority = MEDIUM, deadline = None, tags = []\<rparr>"

definition idle :: UserData where
  "idle = \<lparr>pending_action = None, task_id = None\<rparr>"

definition world :: bot where
  "world = \<lparr>tasks = [''t1'' \<mapsto> essay], users = [alice, bob], issued = 0,
             user_data = (\<lambda>_. idle), sent = [], notified = []\<rparr>"

definition now0 :: datetime where
  "now0 = \<lparr>year = 2026, month = 11, day = 4, hour = 9, minute = 38, second = 12,
            microsecond = 345\<rparr>"


text \<open>
  The first user in the middle of a flow: after the button \<^verbatim>\<open>setdeadline_t1\<close>, after
  deleting that task with \<^verbatim>\<open>confirmdelete_t1\<close> while the flow is open, and after the
  keyboard button for adding a task.  And a title of 201 characters.
\<close>

definition awaiting_deadline :: bot where
  "awaiting_deadline = handle_callback_query 1 ''setdeadline_t1'' world"

definition task_deleted_in_flow :: bot where
  "task_deleted_in_flow = handle_callback_query 1 ''confirmdelete_t1'' awaiting_deadline"

definition awaiting_title :: bot where
  "awaiting_title = handle_message now0 1 add_task_label world"

definition long_title :: string where
  "long_title = replicate 201 CHR ''a''"


section \<open>Properties of the action codec\<close>

lemma str_split_nonempty: "str_split c s \<noteq> []"
  by (induction s) (auto split: list.splits)

lemma str_split_prefix: "c \<notin> set v \<Longrightarrow> str_split c (v @ c # r) = v # str_split c r"
  by (induction v) (auto split: list.splits)

lemma str_join_split: "str_join c (str_split c s) = s"
proof (induction s)
  case Nil
  show ?case by simp
next
  case (Cons x xs)
  show ?case
  proof (cases "str_split c xs")
    case Nil
    with str_split_nonempty show ?thesis by blast
  next
    case (Cons t ts)
    with Cons.IH show ?thesis by (cases ts) auto
  qed
qed

lemma startswith_sep:
  assumes "c \<notin> set v" "c \<notin> set p"
  shows "startswith (v @ c # r) (p @ [c]) \<longleftrightarrow> v = p"
  using assms
proof (induction v arbitrary: p)
  case Nil
  then show ?case by (cases p) (auto simp: startswith_def)
next
  case (Cons a v)
  show ?case
  proof (cases p)
    case Nil
    with Cons.prems show ?thesis by (auto simp: startswith_def)
  next
    case (Cons b q)
    with Cons.prems Cons.IH[of q] show ?thesis by (auto simp: startswith_def)
  qed
qed

lemma startswith_append: "startswith s p \<Longrightarrow> \<exists>r. s = p @ r"
  unfolding startswith_def by (metis append_take_drop_id)

lemma priority_not_lang:
  assumes "startswith d ''priority_''"
  shows "\<not> startswith d ''lang_''"
proof -
  obtain r where "d = ''priority_'' @ r" using startswith_append[OF assms] by blast
  then show ?thesis by (simp add: startswith_def)
qed

lemma decode_general:
  assumes "CHR ''_'' \<notin> set verb" "verb \<noteq> ''lang''" "verb \<noteq> ''priority''"
  shows "decode_callback (verb @ ''_'' @ ident) = GeneralForm verb ident"
proof -
  have l: "\<not> startswith (verb @ CHR ''_'' # ident) ''lang_''"
    using startswith_sep[of "CHR ''_''" verb "''lang''" ident] assms by simp
  have p: "\<not> startswith (verb @ CHR ''_'' # ident) ''priority_''"
    using startswith_sep[of "CHR ''_''" verb "''priority''" ident] assms by simp
  have s: "str_split CHR ''_'' (verb @ CHR ''_'' # ident) = verb # str_split CHR ''_'' ident"
    using assms(1) by (rule str_split_prefix)
  obtain t ts where ts: "str_split CHR ''_'' ident = t # ts"
    using str_split_nonempty[of "CHR ''_''" ident] by (cases "str_split CHR ''_'' ident") auto
  have j: "str_join CHR ''_'' (t # ts) = ident"
    using str_join_split[of "CHR ''_''" ident] ts by simp
  show ?thesis
    using l p s ts j by (simp add: decode_callback_def Let_def)
qed

lemma decode_priority:
  assumes "CHR ''_'' \<notin> set p"
  shows "decode_callback (''priority_'' @ p @ ''_'' @ ident) = PriorityForm p ident"
proof -
  have s0: "str_split CHR ''_'' (''priority'' @ CHR ''_'' # (p @ CHR ''_'' # ident))
            = ''priority'' # str_split CHR ''_'' (p @ CHR ''_'' # ident)"
    by (rule str_split_prefix) simp
  have s1: "str_split CHR ''_'' (p @ CHR ''_'' # ident) = p # str_split CHR ''_'' ident"
    using assms by (rule str_split_prefix)
  obtain t ts where ts: "str_split CHR ''_'' ident = t # ts"
    using str_split_nonempty[of "CHR ''_''" ident] by (cases "str_split CHR ''_'' ident") auto
  have j: "str_join CHR ''_'' (t # ts) = ident"
    using str_join_split[of "CHR ''_''" ident] ts by simp
  have sw: "startswith (''priority_'' @ p @ ''_'' @ ident) ''priority_''"
    by (simp add: startswith_def)
  have nl: "\<not> startswith (''priority_'' @ p @ ''_'' @ ident) ''lang_''"
    by (simp add: startswith_def)
  show ?thesis
    using s0 s1 ts j sw nl by (simp add: decode_callback_def Let_def)
qed

lemma decode_priority_short:
  assumes "startswith d ''priority_''" "length (str_split CHR ''_'' d) < 3"
  shows "decode_callback d = Malformed"
proof -
  have "d \<noteq> []" using assms(1) by (auto simp: startswith_def)
  with assms priority_not_lang[OF assms(1)] show ?thesis
    by (simp add: decode_callback_def Let_def)
qed

lemma decode_general_short:
  assumes "\<not> startswith e ''lang_''" "\<not> startswith e ''priority_''" "e \<noteq> []"
    "length (str_split CHR ''_'' e) < 2"
  shows "decode_callback e = Malformed"
  using assms by (simp add: decode_callback_def Let_def)

text \<open>
  Claim C1.  A general-form payload is the verb, the separator and the task identity.  For
  every verb without the separator other than \<^verbatim>\<open>lang\<close> and \<^verbatim>\<open>priority\<close>, and for
  every identity, with or without separators in it, decoding gives back the verb and the
  identity: the first token is the verb and the remaining tokens, joined again with the
  separator, are the identity.
\<close>

theorem decode_general_roundtrip:
  assumes "CHR ''_'' \<notin> set verb" "verb \<noteq> ''lang''" "verb \<noteq> ''priority''"
  shows "decode_callback (verb @ ''_'' @ ident) = GeneralForm verb ident
         \<and> str_split CHR ''_'' (verb @ ''_'' @ ident) = verb # str_split CHR ''_'' ident
         \<and> str_join CHR ''_'' (str_split CHR ''_'' ident) = ident"
  using decode_general[OF assms] str_split_prefix[OF assms(1)] str_join_split by simp

theorem decode_general_roundtrip_witness:
  "CHR ''_'' \<notin> set ''setdeadline'' \<and> ''setdeadline'' \<noteq> ''lang'' \<and> ''setdeadline'' \<noteq> ''priority''
   \<and> decode_callback ''setdeadline_abc_123'' = GeneralForm ''setdeadline'' ''abc_123''"
  using decode_general_roundtrip[of "''setdeadline''" "''abc_123''"] by simp

text \<open>
  Claim C2.  For each of the four priority values and every identity, the payload
  \<^verbatim>\<open>priority_\<close> value \<^verbatim>\<open>_\<close> identity decodes to the priority form with that value and
  that identity.  A priority payload with fewer than three tokens and any other payload
  with fewer than two tokens are malformed, and the handler leaves the whole state as it
  was; so does an empty payload.
\<close>

theorem decode_priority_form:
  "(p \<in> set [''urgent'', ''high'', ''medium'', ''low''] \<longrightarrow>
      decode_callback (''priority_'' @ p @ ''_'' @ ident) = PriorityForm p ident)
   \<and> (startswith d ''priority_'' \<and> length (str_split CHR ''_'' d) < 3 \<longrightarrow>
      decode_callback d = Malformed \<and> handle_callback_query sender d s = s)
   \<and> (\<not> startswith e ''lang_'' \<and> \<not> startswith e ''priority_'' \<and> e \<noteq> [] \<and>
        length (str_split CHR ''_'' e) < 2 \<longrightarrow>
      decode_callback e = Malformed \<and> handle_callback_query sender e s = s)
   \<and> decode_callback [] = NoData \<and> handle_callback_query sender [] s = s"
proof -
  have "CHR ''_'' \<notin> set p" if "p \<in> set [''urgent'', ''high'', ''medium'', ''low'']"
    using that by auto
  then have 1: "p \<in> set [''urgent'', ''high'', ''medium'', ''low''] \<longrightarrow>
      decode_callback (''priority_'' @ p @ ''_'' @ ident) = PriorityForm p ident"
    using decode_priority by blast
  have 2: "startswith d ''priority_'' \<and> length (str_split CHR ''_'' d) < 3 \<longrightarrow>
      decode_callback d = Malformed \<and> handle_callback_query sender d s = s"
    using decode_priority_short[of d] by (simp add: handle_callback_query_def)
  have 3: "\<not> startswith e ''lang_'' \<and> \<not> startswith e ''priority_'' \<and> e \<noteq> [] \<and>
        length (str_split CHR ''_'' e) < 2 \<longrightarrow>
      decode_callback e = Malformed \<and> handle_callback_query sender e s = s"
    using decode_general_short[of e] by (simp add: handle_callback_query_def)
  have 4: "decode_callback [] = NoData \<and> handle_callback_query sender [] s = s"
    by (simp add: handle_callback_query_def decode_callback_def)
  from 1 2 3 4 show ?thesis by blast
qed

theorem decode_priority_form_witness:
  "''high'' \<in> set [''urgent'', ''high'', ''medium'', ''low'']
   \<and> decode_callback ''priority_high_xyz_1'' = PriorityForm ''high'' ''xyz_1''
   \<and> startswith ''priority_high'' ''priority_'' \<and> length (str_split CHR ''_'' ''priority_high'') < 3
   \<and> decode_callback ''priority_high'' = Malformed
   \<and> handle_callback_query 1 ''priority_high'' world = world
   \<and> \<not> startswith ''garbage'' ''lang_'' \<and> \<not> startswith ''garbage'' ''priority_'' \<and> ''garbage'' \<noteq> []
   \<and> length (str_split CHR ''_'' ''garbage'') < 2
   \<and> decode_callback ''garbage'' = Malformed
   \<and> handle_callback_query 1 ''garbage'' world = world"
  using decode_priority_form[of "''high''" "''xyz_1''" "''priority_high''" 1 world "''garbage''"]
  by (simp add: startswith_def)

section \<open>Properties of the deadline parser\<close>

subsection \<open>Lower case and trimming\<close>
















lemma dropWhile_fix: "xs = [] \<or> \<not> P (hd xs) \<Longrightarrow> dropWhile P xs = xs"
  by (cases xs) auto



lemma str_strip_id:
  assumes "s \<noteq> []" "\<not> is_space (hd s)" "\<not> is_space (last s)"
  shows "str_strip s = s"
proof -
  have a: "dropWhile is_space s = s" using assms(1,2) by (cases s) auto
  have b: "dropWhile is_space (rev s) = rev s"
    using assms(1,3) by (intro dropWhile_fix) (simp add: hd_rev)
  show ?thesis by (simp add: str_strip_def a b)
qed







subsection \<open>The counting grammars\<close>













subsection \<open>The grammars\<close>

lemmas matcher_defs =
  match_absolute_def match_clock_def match_word_clock_def match_count_def digits_n_def
  digits_many_def spaces1_def spaces0_def lit_def startswith_def is_space_def is_digit_def
  int_of_digits_def digit_val_def

lemmas text_defs = str_strip_def str_lower_def lower_char_def upper_letters_def lower_letters_def


lemma parse_day32_example: "parse_deadline ''32.01.2026 10:00'' now = Inr None"
  by (simp add: parse_deadline_def parse_relative_def matcher_defs text_defs datetime_new_def days_in_month_def is_leap_def)



lemma parse_garbage_example: "parse_deadline ''garbage'' now = Inr None"
  by (simp add: parse_deadline_def parse_relative_def matcher_defs text_defs)

lemma plus_days_one: "plus_days now 1 = next_day now"
  by (simp add: plus_days_def split: sum.splits)




lemma days_in_month_pos: "Suc 0 \<le> days_in_month y m"
  by (simp add: days_in_month_def)

lemma next_day_valid: "valid_datetime dt \<Longrightarrow> next_day dt = Inr d \<Longrightarrow> valid_datetime d"
  by (auto simp: next_day_def valid_datetime_def days_in_month_pos split: if_splits)

lemma add_days_valid: "valid_datetime dt \<Longrightarrow> add_days n dt = Inr d \<Longrightarrow> valid_datetime d"
proof (induction n arbitrary: dt)
  case 0
  then show ?case by simp
next
  case (Suc n)
  then obtain d1 where 1: "next_day dt = Inr d1" "add_days n d1 = Inr d"
    by (auto split: sum.splits)
  from next_day_valid[OF Suc.prems(1) 1(1)] Suc.IH 1(2) show ?case by blast
qed


lemma add_days_now0:
  "add_days (Suc 0) now0 = Inr (now0\<lparr>day := 5\<rparr>)"
  "add_days 3 now0 = Inr (now0\<lparr>day := 7\<rparr>)"
  "add_days 14 now0 = Inr (now0\<lparr>day := 18\<rparr>)"
  by (simp_all add: eval_nat_numeral next_day_def now0_def days_in_month_def)

lemma plus_days_now0:
  "plus_days now0 (Suc 0) = Inr (now0\<lparr>day := 5\<rparr>)"
  "plus_days now0 3 = Inr (now0\<lparr>day := 7\<rparr>)"
  "plus_days now0 14 = Inr (now0\<lparr>day := 18\<rparr>)"
proof -
  show "plus_days now0 (Suc 0) = Inr (now0\<lparr>day := 5\<rparr>)"
    using add_days_now0(1) by (simp add: plus_days_def del: add_days.simps)
  show "plus_days now0 3 = Inr (now0\<lparr>day := 7\<rparr>)"
    by (simp add: plus_days_def add_days_now0)
  show "plus_days now0 14 = Inr (now0\<lparr>day := 18\<rparr>)"
    by (simp add: plus_days_def add_days_now0)
qed


text \<open>
  Claim C4.  The parser is not total: a clock value out of range in the \<^verbatim>\<open>today\<close> and
  \<^verbatim>\<open>tomorrow\<close> grammars reaches \<^verbatim>\<open>replace\<close>, whose \<^verbatim>\<open>ValueError\<close> nothing in the
  parser catches, while the same kind of error in the absolute grammar is caught and gives
  no timestamp.
\<close>

theorem parse_deadline_raises:
  "parse_deadline ''today 25:00'' now = Inl ValueError
   \<and> parse_deadline ''tomorrow 12:60'' now0 = Inl ValueError
   \<and> parse_deadline ''32.01.2026 10:00'' now = Inr None"
  using plus_days_now0(1) parse_day32_example[of now]
  by (simp add: parse_deadline_def parse_relative_def matcher_defs text_defs replace_time_def)

section \<open>Properties of the handlers\<close>

subsection \<open>Runs in the sample world\<close>

lemmas state_defs =
  send_def set_pending_def set_pending_action_def pop_pending_action_def clear_pending_def
  store_update_def update_def delete_def get_by_id_def get_user_from_update_def
  get_by_telegram_id_def

lemmas world_defs = world_def alice_def bob_def essay_def idle_def

lemma world_users:
  "get_by_telegram_id 1 world = Some alice" "get_by_telegram_id 2 world = Some bob"
  by (simp_all add: get_by_telegram_id_def world_defs)

lemma decode_examples:
  "decode_callback ''setdeadline_t1'' = GeneralForm ''setdeadline'' ''t1''"
  "decode_callback ''confirmdelete_t1'' = GeneralForm ''confirmdelete'' ''t1''"
  "decode_callback ''edittitle_t1'' = GeneralForm ''edittitle'' ''t1''"
  "decode_callback ''priority_urgent_t1'' = PriorityForm ''urgent'' ''t1''"
  using decode_general[of "''setdeadline''" "''t1''"] decode_general[of "''confirmdelete''" "''t1''"]
    decode_general[of "''edittitle''" "''t1''"] decode_priority[of "''urgent''" "''t1''"]
  by simp_all

lemma awaiting_deadline_eq:
  "awaiting_deadline = world\<lparr>user_data := (\<lambda>_. idle)(1 := \<lparr>pending_action = Some set_deadline, task_id = Some ''t1''\<rparr>),
     sent := [EditMessage (PromptSetDeadline ''Essay'')]\<rparr>"
  by (simp add: awaiting_deadline_def handle_callback_query_def decode_examples state_defs
      world_defs dispatch_action_def handle_set_deadline_def)


lemmas label_defs = tasks_label_def add_task_label_def deadlines_label_def search_label_def help_label_def

lemma routes_examples:
  "keyboard_routes help_label = Some help_route"
  "keyboard_routes add_task_label = Some add_task_route"
  "keyboard_routes ''garbage'' = None"
  "keyboard_routes ''tomorrow 09:00'' = None"
  "keyboard_routes ''Hacked'' = None"
  "keyboard_routes ''hello'' = None"
  by (simp_all add: keyboard_routes_def label_defs)

lemma strip_examples:
  "str_strip help_label = help_label"
  "str_strip add_task_label = add_task_label"
  "str_strip ''garbage'' = ''garbage''"
  "str_strip ''tomorrow 09:00'' = ''tomorrow 09:00''"
  "str_strip ''Hacked'' = ''Hacked''"
  "str_strip ''hello'' = ''hello''"
  by (simp_all add: str_strip_def label_defs is_space_def)

lemma task_deleted_in_flow_eq:
  "task_deleted_in_flow = world\<lparr>tasks := Map.empty,
     user_data := (\<lambda>_. idle)(1 := \<lparr>pending_action = Some set_deadline, task_id = Some ''t1''\<rparr>),
     sent := [EditMessage (PromptSetDeadline ''Essay''), EditMessage (TaskDeleted ''Essay'')]\<rparr>"
  by (simp add: task_deleted_in_flow_def awaiting_deadline_eq handle_callback_query_def
      decode_examples state_defs world_defs dispatch_action_def process_delete_task_def)

lemma not_found_reply:
  assumes "get_by_telegram_id sender s = Some user"
    and "keyboard_routes (str_strip text) = None"
    and "pending_action (user_data s sender) = Some kind"
    and "kind \<noteq> new_task_title" and "kind \<noteq> search_keyword"
    and "task_id (user_data s sender) = Some t" and "t \<noteq> []" and "tasks s t = None"
  shows "handle_message now sender text s = send (Reply TaskNotFound) s"
  using assms by (simp add: handle_message_def get_user_from_update_def get_by_id_def)

text \<open>
  Claim C7.  The task of an open flow is deleted and the user then sends the text the flow
  waits for.  The answer is that the task was not found and no task changes, but the
  return that sends this answer comes before the lines that clear the slot: the pending
  action and its task id are still there afterwards.
\<close>

theorem not_found_keeps_pending:
  "user_data task_deleted_in_flow 1 = \<lparr>pending_action = Some set_deadline, task_id = Some ''t1''\<rparr>
   \<and> get_by_id ''t1'' (tasks task_deleted_in_flow) = None
   \<and> handle_message now0 1 ''tomorrow 09:00'' task_deleted_in_flow
       = send (Reply TaskNotFound) task_deleted_in_flow
   \<and> user_data (handle_message now0 1 ''tomorrow 09:00'' task_deleted_in_flow) 1
       = \<lparr>pending_action = Some set_deadline, task_id = Some ''t1''\<rparr>"
proof -
  have m: "handle_message now0 1 ''tomorrow 09:00'' task_deleted_in_flow
       = send (Reply TaskNotFound) task_deleted_in_flow"
    by (simp add: task_deleted_in_flow_eq handle_message_def routes_examples strip_examples
        state_defs world_defs)
  show ?thesis unfolding m by (simp add: task_deleted_in_flow_eq state_defs)
qed


subsection \<open>What the steps leave alone\<close>

lemma send_frame [simp]:
  "tasks (send m s) = tasks s" "users (send m s) = users s" "user_data (send m s) = user_data s"
  "sent (send m s) = sent s @ [m]" "issued (send m s) = issued s"
  by (simp_all add: send_def)

lemma store_update_frame [simp]:
  "users (store_update t s) = users s" "user_data (store_update t s) = user_data s"
  "sent (store_update t s) = sent s"
  by (simp_all add: store_update_def)

lemma process_pending_frame:
  "users (process_pending kind now task text s) = users s"
  "user_data (process_pending kind now task text s) = user_data s"
  by (cases kind;
      simp add: process_set_deadline_def process_edit_deadline_def process_add_tags_def
        process_edit_tags_def process_add_description_def process_edit_title_def
        process_edit_description_def Let_def split: sum.splits option.splits)+

lemma create_and_confirm_frame:
  assumes "create_and_confirm_task now user ttl s = Inr s'"
  shows "users s' = users s" "user_data s' = user_data s"
  using assms
  by (auto simp: create_and_confirm_task_def execute_def Let_def split: sum.splits prod.splits if_splits)

lemma clear_pending_frame [simp]:
  "users (clear_pending sender s) = users s" "tasks (clear_pending sender s) = tasks s"
  "sent (clear_pending sender s) = sent s"
  "user_data (clear_pending sender s) sender = \<lparr>pending_action = None, task_id = None\<rparr>"
  by (simp_all add: clear_pending_def)

lemma pop_pending_frame [simp]:
  "users (pop_pending_action sender s) = users s" "tasks (pop_pending_action sender s) = tasks s"
  "sent (pop_pending_action sender s) = sent s"
  "pending_action (user_data (pop_pending_action sender s) sender) = None"
  by (simp_all add: pop_pending_action_def)

lemma registered_user:
  "get_by_telegram_id sender s = Some user \<Longrightarrow> get_user_from_update sender s = (Some user, s)"
  by (simp add: get_user_from_update_def)

lemma get_by_telegram_id_cong: "users s' = users s \<Longrightarrow> get_by_telegram_id sender s' = get_by_telegram_id sender s"
  by (simp add: get_by_telegram_id_def)

lemma idle_message:
  assumes "get_by_telegram_id sender s = Some user" "keyboard_routes (str_strip text) = None"
    "pending_action (user_data s sender) = None"
  shows "handle_message now sender text s = s"
  using assms by (simp add: handle_message_def registered_user)

lemma message_consumes:
  assumes reg: "get_by_telegram_id sender s = Some user"
    and free: "keyboard_routes (str_strip text) = None"
    and pend: "pending_action (user_data s sender) = Some kind"
    and target: "kind = new_task_title \<or> kind = search_keyword \<or>
                 (task_id (user_data s sender) = Some t \<and> t \<noteq> [] \<and> tasks s t \<noteq> None)"
  shows "pending_action (user_data (handle_message now sender text s) sender) = None"
    and "users (handle_message now sender text s) = users s"
proof -
  consider (title) "kind = new_task_title" | (search) "kind = search_keyword"
    | (task) "kind \<noteq> new_task_title" "kind \<noteq> search_keyword"
        "task_id (user_data s sender) = Some t" "t \<noteq> []" "tasks s t \<noteq> None"
    using target by blast
  then have "pending_action (user_data (handle_message now sender text s) sender) = None
      \<and> users (handle_message now sender text s) = users s"
  proof cases
    case title
    show ?thesis
    proof (cases "create_and_confirm_task now user (str_strip text) (pop_pending_action sender s)")
      case (Inl e)
      with title reg free pend show ?thesis
        by (simp add: handle_message_def registered_user)
    next
      case (Inr s3)
      from create_and_confirm_frame[OF Inr] title reg free pend Inr show ?thesis
        by (simp add: handle_message_def registered_user)
    qed
  next
    case search
    with reg free pend show ?thesis
      by (simp add: handle_message_def registered_user execute_search_def)
  next
    case task
    then obtain task0 where "get_by_id t (tasks s) = Some task0"
      by (auto simp: get_by_id_def)
    with task reg free pend show ?thesis
      by (simp add: handle_message_def registered_user process_pending_frame)
  qed
  then show "pending_action (user_data (handle_message now sender text s) sender) = None"
    and "users (handle_message now sender text s) = users s" by simp_all
qed

lemma route_labels:
  "keyboard_routes x = Some add_task_route \<Longrightarrow> x = add_task_label"
  "keyboard_routes x = Some search_route \<Longrightarrow> x = search_label"
  by (simp_all add: keyboard_routes_def split: if_splits)

lemma label_not_command:
  "\<not> startswith add_task_label ''/add_task''" "\<not> startswith search_label ''/search''"
  by (simp_all add: startswith_def label_defs)

lemma keyboard_label_effect:
  assumes "get_by_telegram_id sender s = Some user"
    and "keyboard_routes (str_strip lbl) = Some r"
  shows "handle_message now sender lbl s
           = (case r of
                tasks_route \<Rightarrow> send (Reply TaskListing) s
              | add_task_route \<Rightarrow>
                  send (Reply AskTaskName) (set_pending_action sender new_task_title s)
              | deadlines_route \<Rightarrow> send (Reply DeadlineListing) s
              | search_route \<Rightarrow>
                  send (Reply AskKeyword) (set_pending_action sender search_keyword s)
              | help_route \<Rightarrow> send (Reply HelpText) s)"
proof (cases r)
  case tasks_route
  with assms show ?thesis
    by (simp add: handle_message_def handle_tasks_command_def registered_user)
next
  case add_task_route
  with assms(2) have "str_strip lbl = add_task_label" by (simp add: route_labels)
  with assms add_task_route show ?thesis
    by (simp add: handle_message_def handle_add_task_command_def registered_user
        label_not_command)
next
  case deadlines_route
  with assms show ?thesis
    by (simp add: handle_message_def handle_deadline_command_def registered_user)
next
  case search_route
  with assms(2) have "str_strip lbl = search_label" by (simp add: route_labels)
  with assms search_route show ?thesis
    by (simp add: handle_message_def handle_search_command_def registered_user
        label_not_command)
next
  case help_route
  with assms show ?thesis
    by (simp add: handle_message_def handle_help_command_def)
qed

lemma keyboard_label_slot:
  assumes "get_by_telegram_id sender s = Some user"
    and "keyboard_routes (str_strip lbl) = Some r"
  shows "user_data (handle_message now sender lbl s) sender
           = (if r = add_task_route
              then (user_data s sender)\<lparr>pending_action := Some new_task_title\<rparr>
              else if r = search_route
              then (user_data s sender)\<lparr>pending_action := Some search_keyword\<rparr>
              else user_data s sender)"
  unfolding keyboard_label_effect[OF assms]
  by (cases r) (simp_all add: set_pending_action_def)

text \<open>
  Claim C5, amended.  Setting a pending action overwrites what the slot of that user held,
  as when the tags button follows the deadline button.
  When a registered user has a pending action that needs no task, or one whose task
  exists, the next text that is not a label of the persistent keyboard empties the slot,
  and a further such text changes nothing at all: no reply, no processing.
  A text that is a label of the persistent keyboard is answered as the command of that
  label and consumes nothing: after the labels for the task list, the deadlines and the
  help text the slot is as it was, and after the labels for adding a task and for
  searching the pending kind is replaced by the one of the new flow while the stored task
  id stays.
\<close>

theorem pending_overwritten_and_consumed:
  assumes "get_by_telegram_id sender s = Some user"
    and "keyboard_routes (str_strip text) = None"
    and "keyboard_routes (str_strip text') = None"
    and "pending_action (user_data s sender) = Some kind"
    and "kind = new_task_title \<or> kind = search_keyword \<or>
         (task_id (user_data s sender) = Some t \<and> t \<noteq> [] \<and> tasks s t \<noteq> None)"
  shows "user_data (set_pending sender kind2 tid2 s0) sender = \<lparr>pending_action = Some kind2, task_id = tid2\<rparr>
       \<and> pending_action (user_data (set_pending_action sender kind2 s0) sender) = Some kind2
       \<and> pending_action (user_data (handle_message now sender text s) sender) = None
       \<and> handle_message now' sender text' (handle_message now sender text s)
           = handle_message now sender text s
       \<and> user_data (handle_add_tags task2 sender (handle_set_deadline task1 sender s0)) sender
           = \<lparr>pending_action = Some add_tags, task_id = id_t task2\<rparr>
       \<and> (keyboard_routes (str_strip lbl) = Some r \<longrightarrow>
            handle_message now sender lbl s
              = (case r of
                   tasks_route \<Rightarrow> send (Reply TaskListing) s
                 | add_task_route \<Rightarrow>
                     send (Reply AskTaskName) (set_pending_action sender new_task_title s)
                 | deadlines_route \<Rightarrow> send (Reply DeadlineListing) s
                 | search_route \<Rightarrow>
                     send (Reply AskKeyword) (set_pending_action sender search_keyword s)
                 | help_route \<Rightarrow> send (Reply HelpText) s)
            \<and> tasks (handle_message now sender lbl s) = tasks s
            \<and> user_data (handle_message now sender lbl s) sender
              = (if r = add_task_route
                 then (user_data s sender)\<lparr>pending_action := Some new_task_title\<rparr>
                 else if r = search_route
                 then (user_data s sender)\<lparr>pending_action := Some search_keyword\<rparr>
                 else user_data s sender))"
proof -
  note c = message_consumes[OF assms(1,2,4,5), of now]
  have "get_by_telegram_id sender (handle_message now sender text s) = Some user"
    using c(2) assms(1) by (simp add: get_by_telegram_id_def)
  from idle_message[OF this assms(3) c(1)] c(1)
  have first: "user_data (set_pending sender kind2 tid2 s0) sender = \<lparr>pending_action = Some kind2, task_id = tid2\<rparr>
       \<and> pending_action (user_data (set_pending_action sender kind2 s0) sender) = Some kind2
       \<and> pending_action (user_data (handle_message now sender text s) sender) = None
       \<and> handle_message now' sender text' (handle_message now sender text s)
           = handle_message now sender text s
       \<and> user_data (handle_add_tags task2 sender (handle_set_deadline task1 sender s0)) sender
           = \<lparr>pending_action = Some add_tags, task_id = id_t task2\<rparr>"
    by (simp add: set_pending_def set_pending_action_def handle_add_tags_def
        handle_set_deadline_def send_def)
  have label: "tasks (handle_message now sender lbl s) = tasks s"
    if "keyboard_routes (str_strip lbl) = Some r"
    unfolding keyboard_label_effect[OF assms(1) that]
    by (cases r) (simp_all add: set_pending_action_def)
  from first label keyboard_label_effect[OF assms(1), of lbl r now]
    keyboard_label_slot[OF assms(1), of lbl r now]
  show ?thesis by blast
qed

text \<open>
  Against claim C5 as it is stated: with the deadline flow open, the text of the help
  button of the persistent keyboard is answered as the help command and the slot is left
  as it was; and when the task of the flow is gone, neither the next text nor the one
  after it empties the slot.
\<close>

theorem keyboard_label_keeps_pending:
  "pending_action (user_data awaiting_deadline 1) = Some set_deadline
   \<and> handle_message now0 1 help_label awaiting_deadline = send (Reply HelpText) awaiting_deadline
   \<and> pending_action (user_data (handle_message now0 1 help_label awaiting_deadline) 1)
       = Some set_deadline
   \<and> pending_action
       (user_data
          (handle_message now0 1 ''hello''
             (handle_message now0 1 ''tomorrow 09:00'' task_deleted_in_flow)) 1)
       = Some set_deadline"
proof -
  have b: "handle_message now0 1 ''tomorrow 09:00'' task_deleted_in_flow
             = send (Reply TaskNotFound) task_deleted_in_flow"
    by (simp add: task_deleted_in_flow_eq handle_message_def routes_examples strip_examples
        state_defs world_defs)
  have c: "handle_message now0 1 ''hello'' (send (Reply TaskNotFound) task_deleted_in_flow)
             = send (Reply TaskNotFound) (send (Reply TaskNotFound) task_deleted_in_flow)"
    by (simp add: task_deleted_in_flow_eq handle_message_def routes_examples strip_examples
        state_defs world_defs)
  have d: "handle_message now0 1 help_label awaiting_deadline
             = send (Reply HelpText) awaiting_deadline"
    by (simp add: handle_message_def routes_examples strip_examples handle_help_command_def)
  show ?thesis
    unfolding b c d by (simp add: task_deleted_in_flow_eq awaiting_deadline_eq)
qed

text \<open>The amended claim C5 at the open deadline flow of the sample world.\<close>

theorem pending_overwritten_and_consumed_witness:
  "get_by_telegram_id 1 awaiting_deadline = Some alice
   \<and> keyboard_routes (str_strip ''tomorrow 09:00'') = None
   \<and> keyboard_routes (str_strip ''hello'') = None
   \<and> pending_action (user_data awaiting_deadline 1) = Some set_deadline
   \<and> task_id (user_data awaiting_deadline 1) = Some ''t1''
   \<and> ''t1'' \<noteq> [] \<and> tasks awaiting_deadline ''t1'' \<noteq> None
   \<and> user_data (set_pending 1 add_tags (Some ''t2'') awaiting_deadline) 1
        = \<lparr>pending_action = Some add_tags, task_id = Some ''t2''\<rparr>
   \<and> pending_action (user_data (handle_message now0 1 ''tomorrow 09:00'' awaiting_deadline) 1) = None
   \<and> handle_message now0 1 ''hello'' (handle_message now0 1 ''tomorrow 09:00'' awaiting_deadline)
        = handle_message now0 1 ''tomorrow 09:00'' awaiting_deadline
   \<and> keyboard_routes (str_strip add_task_label) = Some add_task_route
   \<and> user_data (handle_message now0 1 add_task_label awaiting_deadline) 1
        = \<lparr>pending_action = Some new_task_title, task_id = Some ''t1''\<rparr>
   \<and> keyboard_routes (str_strip help_label) = Some help_route
   \<and> user_data (handle_message now0 1 help_label awaiting_deadline) 1
        = \<lparr>pending_action = Some set_deadline, task_id = Some ''t1''\<rparr>"
proof -
  have h: "get_by_telegram_id 1 awaiting_deadline = Some alice"
    "keyboard_routes (str_strip ''tomorrow 09:00'') = None"
    "keyboard_routes (str_strip ''hello'') = None"
    "pending_action (user_data awaiting_deadline 1) = Some set_deadline"
    "task_id (user_data awaiting_deadline 1) = Some ''t1''"
    "tasks awaiting_deadline ''t1'' \<noteq> None"
    "keyboard_routes (str_strip add_task_label) = Some add_task_route"
    "keyboard_routes (str_strip help_label) = Some help_route"
    by (simp_all add: awaiting_deadline_eq get_by_telegram_id_def world_defs routes_examples
        strip_examples)
  have u: "user_data awaiting_deadline 1
             = \<lparr>pending_action = Some set_deadline, task_id = Some ''t1''\<rparr>"
    by (simp add: awaiting_deadline_eq)
  from h
    pending_overwritten_and_consumed[of 1 awaiting_deadline alice "''tomorrow 09:00''"
      "''hello''" set_deadline "''t1''" add_tags "Some ''t2''" awaiting_deadline now0 now0
      essay essay add_task_label add_task_route]
    pending_overwritten_and_consumed[of 1 awaiting_deadline alice "''tomorrow 09:00''"
      "''hello''" set_deadline "''t1''" add_tags "Some ''t2''" awaiting_deadline now0 now0
      essay essay help_label help_route]
  show ?thesis by (simp add: u set_pending_action_def)
qed

text \<open>
  Against claim C6 as it is stated: with the deadline flow open for task \<^verbatim>\<open>t1\<close>, a text
  the parser cannot read leaves the slot empty, not in the state it was in.
\<close>

theorem unparseable_clears_pending:
  "parse_deadline ''garbage'' now0 = Inr None
   \<and> user_data awaiting_deadline 1 = \<lparr>pending_action = Some set_deadline, task_id = Some ''t1''\<rparr>
   \<and> user_data (handle_message now0 1 ''garbage'' awaiting_deadline) 1
       = \<lparr>pending_action = None, task_id = None\<rparr>"
  by (simp add: parse_garbage_example awaiting_deadline_eq handle_message_def routes_examples
      strip_examples state_defs world_defs process_set_deadline_def)

text \<open>
  Claim C6, amended.  A registered user is in a deadline flow or a tag flow for a task that
  exists, and sends a text that is not a keyboard label and that gives no timestamp, or
  no tag.  Then no task changes, exactly one reply is sent (the format hints for a
  deadline, the no-valid-tags message for tags), and the pending action and its task id
  are cleared.
\<close>

theorem unparseable_input_reply:
  assumes "get_by_telegram_id sender s = Some user"
    and "keyboard_routes (str_strip text) = None"
    and "pending_action (user_data s sender) = Some kind"
    and "task_id (user_data s sender) = Some t" and "t \<noteq> []" and "tasks s t \<noteq> None"
    and "((kind = set_deadline \<or> kind = edit_deadline) \<and> parse_deadline text now = Inr None)
         \<or> ((kind = add_tags \<or> kind = edit_tags) \<and> parse_tags text = [])"
  shows "tasks (handle_message now sender text s) = tasks s
       \<and> sent (handle_message now sender text s)
           = sent s @ [Reply (if kind = set_deadline \<or> kind = edit_deadline
                              then InvalidDeadlineFormat else NoValidTags)]
       \<and> user_data (handle_message now sender text s) sender
           = \<lparr>pending_action = None, task_id = None\<rparr>"
proof -
  obtain task0 where g: "get_by_id t (tasks s) = Some task0"
    using assms(6) by (auto simp: get_by_id_def)
  have k: "kind \<noteq> new_task_title" "kind \<noteq> search_keyword" using assms(7) by auto
  have m: "handle_message now sender text s
             = clear_pending sender (process_pending kind now task0 text s)"
    using assms(1-5) g k by (simp add: handle_message_def registered_user)
  have p: "process_pending kind now task0 text s
             = send (Reply (if kind = set_deadline \<or> kind = edit_deadline
                            then InvalidDeadlineFormat else NoValidTags)) s"
    using assms(7)
    by (auto simp: process_set_deadline_def process_edit_deadline_def process_add_tags_def
        process_edit_tags_def)
  show ?thesis by (simp add: m p)
qed

text \<open>The amended claim C6 at the open deadline flow of the sample world.\<close>

theorem unparseable_input_reply_witness:
  "get_by_telegram_id 1 awaiting_deadline = Some alice
   \<and> keyboard_routes (str_strip ''garbage'') = None
   \<and> pending_action (user_data awaiting_deadline 1) = Some set_deadline
   \<and> task_id (user_data awaiting_deadline 1) = Some ''t1''
   \<and> ''t1'' \<noteq> [] \<and> tasks awaiting_deadline ''t1'' \<noteq> None
   \<and> parse_deadline ''garbage'' now0 = Inr None
   \<and> tasks (handle_message now0 1 ''garbage'' awaiting_deadline) = tasks awaiting_deadline
   \<and> sent (handle_message now0 1 ''garbage'' awaiting_deadline)
       = sent awaiting_deadline @ [Reply InvalidDeadlineFormat]
   \<and> user_data (handle_message now0 1 ''garbage'' awaiting_deadline) 1
       = \<lparr>pending_action = None, task_id = None\<rparr>"
proof -
  have h: "get_by_telegram_id 1 awaiting_deadline = Some alice"
    "keyboard_routes (str_strip ''garbage'') = None"
    "pending_action (user_data awaiting_deadline 1) = Some set_deadline"
    "task_id (user_data awaiting_deadline 1) = Some ''t1''"
    "tasks awaiting_deadline ''t1'' \<noteq> None"
    "parse_deadline ''garbage'' now0 = Inr None"
    by (simp_all add: awaiting_deadline_eq get_by_telegram_id_def world_defs routes_examples
        strip_examples parse_garbage_example)
  from h unparseable_input_reply[of 1 awaiting_deadline alice "''garbage''" set_deadline
      "''t1''" now0]
  show ?thesis by simp
qed

text \<open>
  Claim C8.  The handler never compares the owner of a task with the sender.  The second
  user of the sample world does not own task \<^verbatim>\<open>t1\<close>, yet the confirm-delete button
  deletes it, the priority button changes its priority, and the title flow renames it.
\<close>

theorem other_users_task_changed:
  "get_by_telegram_id 2 world = Some bob
   \<and> tasks world ''t1'' = Some essay
   \<and> user_id essay \<noteq> id_u bob
   \<and> tasks (handle_callback_query 2 ''confirmdelete_t1'' world) ''t1'' = None
   \<and> map_option priority (tasks (handle_callback_query 2 ''priority_urgent_t1'' world) ''t1'')
       = Some URGENT
   \<and> map_option title
       (tasks (handle_message now0 2 ''Hacked'' (handle_callback_query 2 ''edittitle_t1'' world))
          ''t1'')
       = Some ''Hacked''"
proof -
  have e: "handle_callback_query 2 ''edittitle_t1'' world
      = world\<lparr>user_data := (\<lambda>_. idle)(2 := \<lparr>pending_action = Some edit_title, task_id = Some ''t1''\<rparr>),
          sent := [EditMessage (PromptEditTitle ''Essay'')]\<rparr>"
    by (simp add: handle_callback_query_def decode_examples state_defs world_defs
        dispatch_action_def handle_edit_title_def)
  have 1: "tasks (handle_callback_query 2 ''confirmdelete_t1'' world) ''t1'' = None"
    by (simp add: handle_callback_query_def decode_examples state_defs world_defs
        dispatch_action_def process_delete_task_def)
  have 2: "map_option priority (tasks (handle_callback_query 2 ''priority_urgent_t1'' world) ''t1'')
       = Some URGENT"
    by (simp add: handle_callback_query_def decode_examples state_defs world_defs
        process_set_priority_def priority_map_def)
  have 3: "map_option title (tasks (handle_message now0 2 ''Hacked''
             (handle_callback_query 2 ''edittitle_t1'' world)) ''t1'') = Some ''Hacked''"
    unfolding e
    by (simp add: handle_message_def routes_examples strip_examples state_defs world_defs
        process_edit_title_def Let_def)
  show ?thesis using 1 2 3 by (simp add: world_users) (simp add: world_defs)
qed


lemma priority_map_pairs:
  assumes "(p, pr) \<in> set [(''urgent'', URGENT), (''high'', HIGH), (''medium'', MEDIUM), (''low'', LOW)]"
  shows "priority_map p = Some pr" and "CHR ''_'' \<notin> set p"
  using assms by (auto simp: priority_map_def)

text \<open>
  Claim C9.  Pressing a priority button for an existing task is one complete step: for
  each of the buttons urgent, high, medium and low the state afterwards is the state
  before with the priority of that task set to the value the button names and one message
  sent.  Read back from the store, the task differs in its priority only; no other task,
  no user and no pending-action slot changes.
\<close>

theorem priority_button_single_event:
  assumes "tasks s tid = Some task" and "tid \<noteq> []"
    and "(p, pr) \<in> set [(''urgent'', URGENT), (''high'', HIGH), (''medium'', MEDIUM), (''low'', LOW)]"
  shows "handle_callback_query sender (''priority_'' @ p @ ''_'' @ tid) s
           = s\<lparr>tasks := (tasks s)(tid \<mapsto> task\<lparr>id_t := Some tid, priority := pr\<rparr>),
               sent := sent s @ [EditMessage (PrioritySet (title task) pr)]\<rparr>
       \<and> get_by_id tid (tasks (handle_callback_query sender (''priority_'' @ p @ ''_'' @ tid) s))
           = map_option (\<lambda>t. t\<lparr>priority := pr\<rparr>) (get_by_id tid (tasks s))
       \<and> user_data (handle_callback_query sender (''priority_'' @ p @ ''_'' @ tid) s) = user_data s"
proof -
  note m = priority_map_pairs[OF assms(3)]
  have d: "decode_callback (''priority_'' @ p @ ''_'' @ tid) = PriorityForm p tid"
    using m(2) by (rule decode_priority)
  have h: "handle_callback_query sender (''priority_'' @ p @ ''_'' @ tid) s
           = s\<lparr>tasks := (tasks s)(tid \<mapsto> task\<lparr>id_t := Some tid, priority := pr\<rparr>),
               sent := sent s @ [EditMessage (PrioritySet (title task) pr)]\<rparr>"
    using assms(1,2) m(1) unfolding handle_callback_query_def d
    by (simp add: get_by_id_def process_set_priority_def Let_def store_update_def update_def
        send_def)
  show ?thesis unfolding h using assms(1) by (simp add: get_by_id_def)
qed

text \<open>Claim C9 at the sample world, for each of the four buttons of task \<^verbatim>\<open>t1\<close>.\<close>

theorem priority_button_single_event_witness:
  "tasks world ''t1'' = Some essay \<and> ''t1'' \<noteq> []
   \<and> (''urgent'', URGENT) \<in> set [(''urgent'', URGENT), (''high'', HIGH), (''medium'', MEDIUM), (''low'', LOW)]
   \<and> get_by_id ''t1'' (tasks (handle_callback_query 1 ''priority_urgent_t1'' world))
       = Some (essay\<lparr>id_t := Some ''t1'', priority := URGENT\<rparr>)
   \<and> get_by_id ''t1'' (tasks (handle_callback_query 1 ''priority_high_t1'' world))
       = Some (essay\<lparr>id_t := Some ''t1'', priority := HIGH\<rparr>)
   \<and> get_by_id ''t1'' (tasks (handle_callback_query 1 ''priority_medium_t1'' world))
       = Some (essay\<lparr>id_t := Some ''t1'', priority := MEDIUM\<rparr>)
   \<and> get_by_id ''t1'' (tasks (handle_callback_query 1 ''priority_low_t1'' world))
       = Some (essay\<lparr>id_t := Some ''t1'', priority := LOW\<rparr>)
   \<and> handle_callback_query 1 ''priority_high_t1'' world
       = world\<lparr>tasks := (tasks world)(''t1'' \<mapsto> essay\<lparr>id_t := Some ''t1'', priority := HIGH\<rparr>),
           sent := sent world @ [EditMessage (PrioritySet (title essay) HIGH)]\<rparr>
   \<and> user_data (handle_callback_query 1 ''priority_high_t1'' world) = user_data world"
proof -
  have h: "tasks world ''t1'' = Some essay" by (simp add: world_def)
  have g: "get_by_id ''t1'' (tasks world) = Some (essay\<lparr>id_t := Some ''t1''\<rparr>)"
    by (simp add: get_by_id_def h)
  from h g priority_button_single_event[of world "''t1''" essay "''urgent''" URGENT 1]
    priority_button_single_event[of world "''t1''" essay "''high''" HIGH 1]
    priority_button_single_event[of world "''t1''" essay "''medium''" MEDIUM 1]
    priority_button_single_event[of world "''t1''" essay "''low''" LOW 1]
  show ?thesis by (simp add: get_by_id_def)
qed

lemma execute_rejects:
  assumes "str_strip ttl = [] \<or> length ttl > 200 \<or> (dl = Some d \<and> dt_le d now)"
  shows "execute now user ttl descr ty prio dl tgs s = Inl ValueError"
  using assms
  by (auto simp: execute_def Task_new_def validate_task_def split: sum.splits)

lemma routes_hd:
  assumes "keyboard_routes s = Some r"
  shows "hd s = CHR 0xF0 \<or> hd s = CHR 0xE2"
  using assms by (auto simp: keyboard_routes_def label_defs split: if_splits)

lemma long_title_facts:
  "length long_title = 201" "str_strip long_title = long_title" "keyboard_routes long_title = None"
  "long_title \<noteq> []"
proof -
  show n: "long_title \<noteq> []" by (simp add: long_title_def)
  show "length long_title = 201" by (simp add: long_title_def)
  have h: "hd long_title = CHR ''a''" "last long_title = CHR ''a''"
    by (simp_all add: long_title_def)
  then show "str_strip long_title = long_title"
    using n by (intro str_strip_id) (simp_all add: is_space_def)
  show "keyboard_routes long_title = None"
  proof (cases "keyboard_routes long_title")
    case (Some r)
    from routes_hd[OF Some] h(1) show ?thesis by simp
  qed simp
qed

lemma awaiting_title_eq:
  "awaiting_title = world\<lparr>user_data := (\<lambda>_. idle)(1 := \<lparr>pending_action = Some new_task_title, task_id = None\<rparr>),
     sent := [Reply AskTaskName]\<rparr>"
proof -
  have sw: "\<not> startswith add_task_label ''/add_task''"
    by (simp add: startswith_def label_defs)
  show ?thesis
    by (simp add: awaiting_title_def handle_message_def routes_examples strip_examples
        handle_add_task_command_def registered_user[OF world_users(1)] sw Let_def
        set_pending_action_def send_def)
      (simp add: world_defs)
qed

text \<open>
  Claim C10.  The use case rejects a title of 201 characters and stores nothing.  After
  the \<^verbatim>\<open>/add_task\<close> command with that title the user gets the error reply; in the flow
  that asks for the title first, the exception is only logged: the slot is emptied, no
  task is stored and nothing at all is sent.
\<close>

theorem rejected_title_gets_no_reply:
  "length long_title > 200
   \<and> pending_action (user_data awaiting_title 1) = Some new_task_title
   \<and> create_and_confirm_task now0 alice long_title (pop_pending_action 1 awaiting_title)
       = Inl ValueError
   \<and> sent (handle_message now0 1 long_title awaiting_title) = sent awaiting_title
   \<and> tasks (handle_message now0 1 long_title awaiting_title) = tasks awaiting_title
   \<and> pending_action (user_data (handle_message now0 1 long_title awaiting_title) 1) = None
   \<and> sent (handle_add_task_command now0 1 (''/add_task '' @ long_title) world)
       = [Reply ErrorOccurred]"
proof -
  have r: "\<And>s. create_and_confirm_task now0 alice long_title s = Inl ValueError"
    by (simp add: create_and_confirm_task_def execute_rejects long_title_facts)
  have u: "get_by_telegram_id 1 awaiting_title = Some alice"
    by (simp add: awaiting_title_eq get_by_telegram_id_def world_defs)
  have p: "pending_action (user_data awaiting_title 1) = Some new_task_title"
    by (simp add: awaiting_title_eq)
  have m: "handle_message now0 1 long_title awaiting_title = pop_pending_action 1 awaiting_title"
    by (simp add: handle_message_def long_title_facts registered_user[OF u] p r)
  have sp: "split_first_space (''/add_task '' @ long_title) = [''/add_task'', long_title]"
    by (simp add: split_first_space_def)
  have st: "str_strip (''/add_task '' @ long_title) = ''/add_task '' @ long_title"
    using long_title_facts(4) by (intro str_strip_id) (simp_all add: is_space_def long_title_def)
  have c: "handle_add_task_command now0 1 (''/add_task '' @ long_title) world
             = send (Reply ErrorOccurred) world"
    by (simp only: handle_add_task_command_def registered_user[OF world_users(1)] st sp
        Let_def prod.case option.case)
      (simp add: startswith_def long_title_facts r)
  show ?thesis unfolding m c by (simp add: long_title_facts p r world_def)
qed

end
